theory Spec2Isabelle
  imports Complex_Main "HOL-Library.Word" "HOL-Library.Log_Nat"
begin

section \<open>Payroll Analytics API: the record store and its three handlers\<close>

text \<open>
  The development embeds \<^verbatim>\<open>app/backend/models.py\<close> (the table
  \<^verbatim>\<open>employees\<close>) and the handlers \<^verbatim>\<open>get_kpis\<close>,
  \<^verbatim>\<open>get_employees\<close> and \<^verbatim>\<open>upload_dataset\<close> of
  \<^verbatim>\<open>app/backend/server.py\<close>.

  Conventions.
  \<^item> A Python \<^verbatim>\<open>float\<close> is an IEEE binary64 number. A \<open>double\<close> is such a number
    other than NaN: \<open>Fin r\<close> with the exact value \<open>r\<close>, or an infinity. Arithmetic
    computes the exact result and rounds it with \<open>nearest_double\<close> (to nearest, ties to
    even). The sign of a zero is not modelled.
  \<^item> An exception is a value of \<open>py_exception\<close>; a handler returns
    \<open>py_exception + 'a\<close>, and \<open>http_status\<close> is what FastAPI answers. A handler's value
    is what the function returns; rendering it as JSON is FastAPI's.
  \<^item> What pandas, the codecs, \<^verbatim>\<open>float()\<close> on a string, the database's SUM over
    doubles and its rendering of a number as text, pydantic's reading of bytes and
    \<^verbatim>\<open>uuid.uuid4()\<close> compute is not code of this repository: these functions are the
    fields of a record \<open>lib\<close> that every handler using them takes as an argument.
  \<^item> A string is a list of HOL characters (code points below 256).
  \<^item> Failures and limits of the environment (a lost connection, a full disk, SQLite's
    bound on the length of a value) are outside the model.
\<close>

subsection \<open>Doubles\<close>

type_synonym byte = "8 word"

datatype double = Fin rat | PInf | NInf

datatype pyfloat = Float double | NaN

definition pow2 :: "int \<Rightarrow> rat" where
  "pow2 e = (if 0 \<le> e then 2 ^ nat e else 1 / 2 ^ nat (- e))"

text \<open>For \<open>a > 0\<close>, the exponent \<open>e\<close> with \<open>2 ^ e \<le> a < 2 ^ (e + 1)\<close>.\<close>

definition ilog2 :: "rat \<Rightarrow> int" where
  "ilog2 a =
     (let d = bitlen (fst (quotient_of a)) - bitlen (snd (quotient_of a))
      in if pow2 d \<le> a then d else d - 1)"

text \<open>To the nearest integer, a tie going to the even one.\<close>

definition round_half_even :: "rat \<Rightarrow> int" where
  "round_half_even y =
     (let f = \<lfloor>y\<rfloor>; d = y - of_int f
      in if d < 1 / 2 then f
         else if 1 / 2 < d then f + 1
         else if even f then f else f + 1)"

text \<open>
  The binary64 number nearest to a rational, a tie going to the even significand: 53
  bits of significand at the exponent of the number, the exponent no lower than -1022
  (below that the numbers are subnormal, spaced \<open>2 ^ - 1074\<close> apart), and an infinity when
  the rounded significand no longer fits the largest exponent, 1023.
\<close>

definition nearest_double :: "rat \<Rightarrow> double" where
  "nearest_double y =
     (if y = 0 then Fin 0
      else
        let a = \<bar>y\<bar>;
            e = max (ilog2 a) (- 1022);
            q = pow2 (e - 52);
            n = round_half_even (a / q)
        in if 1023 < e \<or> (e = 1023 \<and> 2 ^ 53 \<le> n)
           then (if 0 < y then PInf else NInf)
           else Fin (sgn y * of_int n * q))"

subsection \<open>Values and exceptions\<close>

text \<open>
  What a cell of a parsed table, or a lookup in one of its rows, can be: Python's
  \<^verbatim>\<open>None\<close>, a \<^verbatim>\<open>str\<close>, an \<^verbatim>\<open>int\<close>, a \<^verbatim>\<open>float\<close> (NaN, the
  missing-value marker of pandas, apart), a \<^verbatim>\<open>numpy.int64\<close> (the cell of a row whose
  columns are all integer), any other object (identified by a number; what
  \<^verbatim>\<open>float()\<close> and the database driver make of it is the library's), or, for a label
  that occurs several times in a row, the sub-series of all its cells.
\<close>

datatype pyval =
    PNone
  | PStr string
  | PInt int
  | PFloat double
  | PNaN
  | PInt64 "64 word"
  | POther nat
  | PSeries "pyval list"

datatype py_exception =
    HTTPException nat string
  | UnicodeDecodeError string
  | ParserError string
  | ValueError string
  | TypeError string
  | OverflowError string
  | AttributeError string
  | InterfaceError string
  | IntegrityError string
  | ValidationError string
  | OtherError string

fun digit_char :: "nat \<Rightarrow> char" where
  "digit_char n = char_of (48 + n)"

fun digits_of :: "nat \<Rightarrow> nat \<Rightarrow> string" where
  "digits_of 0 n = []"
| "digits_of (Suc fuel) n =
     (if n < 10 then [digit_char n] else digits_of fuel (n div 10) @ [digit_char (n mod 10)])"

definition str_nat :: "nat \<Rightarrow> string" where
  "str_nat n = digits_of (Suc n) n"

definition str_int :: "int \<Rightarrow> string" where
  "str_int i = (if i < 0 then CHR ''-'' # str_nat (nat (- i)) else str_nat (nat i))"

text \<open>
  \<^verbatim>\<open>str(e)\<close>. Starlette's \<^verbatim>\<open>HTTPException.__str__\<close> is
  \<^verbatim>\<open>f"{self.status_code}: {self.detail}"\<close>; every other exception here prints its
  message.
\<close>

fun str_exc :: "py_exception \<Rightarrow> string" where
  "str_exc (HTTPException code detail) = str_nat code @ '': '' @ detail"
| "str_exc (UnicodeDecodeError m) = m"
| "str_exc (ParserError m) = m"
| "str_exc (ValueError m) = m"
| "str_exc (TypeError m) = m"
| "str_exc (OverflowError m) = m"
| "str_exc (AttributeError m) = m"
| "str_exc (InterfaceError m) = m"
| "str_exc (IntegrityError m) = m"
| "str_exc (ValidationError m) = m"
| "str_exc (OtherError m) = m"

text \<open>
  The status FastAPI answers with: the code of an \<^verbatim>\<open>HTTPException\<close>, 500 for
  any other exception that leaves the handler, 200 for a returned value.
\<close>

fun http_status :: "py_exception + 'a \<Rightarrow> nat" where
  "http_status (Inl (HTTPException code detail)) = code"
| "http_status (Inl e) = 500"
| "http_status (Inr v) = 200"

subsection \<open>The table \<^verbatim>\<open>employees\<close> (models.py)\<close>

text \<open>
  What a column declared \<^verbatim>\<open>String\<close> holds when it is not NULL: a text, or the bytes
  of a BLOB, which SQLite keeps as they are and never equates with a text.
\<close>

datatype sql_text = Text string | Blob "byte list"

text \<open>
  One row of the table. \<^verbatim>\<open>id\<close> is the primary key (never NULL); every other
  column is nullable (\<open>None\<close>: NULL). A \<^verbatim>\<open>Float\<close> column holds a double: SQLite stores
  NaN as NULL. The field \<^verbatim>\<open>id\<close> is named \<open>id_col\<close>, since \<open>id\<close> is the identity
  function of HOL.
\<close>

record employee =
  id_col :: string
  employee_id :: "sql_text option"
  name :: "sql_text option"
  age :: "int option"
  gender :: "string option"
  department :: "sql_text option"
  job_role :: "string option"
  monthly_income :: "double option"
  years_at_company :: "int option"
  overtime :: "bool option"
  attrition :: "bool option"
  performance_rating :: "int option"

type_synonym store = "employee list"

subsection \<open>Response models (server.py, lines 60 to 71)\<close>

record EmployeeResponse =
  r_id :: string
  r_employee_id :: string
  r_name :: string
  r_department :: string
  r_monthly_income :: double

record KPIResponse =
  total_employees :: nat
  total_payroll_cost :: double
  avg_salary :: double

subsection \<open>The library\<close>

text \<open>
  The column index of a parsed table: labels of dtype object or string (what a header
  line gives), or an index of any other dtype (the \<^verbatim>\<open>RangeIndex\<close> of a table read
  from an empty sheet, an index of numbers or dates).
\<close>

datatype col_index = LabelIndex "pyval list" | OtherIndex "pyval list"

text \<open>
  A parsed table: its column index and its rows, each row the list of its cells in
  column order, as \<^verbatim>\<open>df.iterrows()\<close> yields them.
\<close>

record dataframe =
  columns :: col_index
  rows :: "pyval list list"

record lib =
  decode_utf8 :: "byte list \<Rightarrow> py_exception + string"
  read_csv :: "string \<Rightarrow> py_exception + dataframe"
  read_excel :: "byte list \<Rightarrow> py_exception + dataframe"
  strip_mixed :: "pyval list \<Rightarrow> string option list option"
  float_of_str :: "string \<Rightarrow> pyfloat option"
  float_of_other :: "nat \<Rightarrow> string + pyfloat"
  bind_other :: "nat \<Rightarrow> string + sql_text option"
  text_of_real :: "double \<Rightarrow> string"
  uuid4 :: "nat \<Rightarrow> string"
  real_sum :: "double list \<Rightarrow> double option"
  str_of_bytes :: "byte list \<Rightarrow> string option"

text \<open>
  \<^item> \<open>decode_utf8\<close>, \<open>read_csv\<close>, \<open>read_excel\<close>: \<^verbatim>\<open>bytes.decode("utf-8")\<close>,
    \<^verbatim>\<open>pandas.read_csv\<close> and \<^verbatim>\<open>pandas.read_excel\<close>, with the exception they raise.
  \<^item> \<open>strip_mixed ls\<close>: \<^verbatim>\<open>Index.str.strip()\<close> on an index of dtype object whose labels
    \<open>ls\<close> are not all strings; \<open>None\<close> stands for the \<^verbatim>\<open>AttributeError\<close> of the
    accessor, and a \<open>None\<close> among the labels returned for a label that is no string.
  \<^item> \<open>float_of_str s\<close>: \<^verbatim>\<open>float(s)\<close>; \<open>None\<close> stands for its \<^verbatim>\<open>ValueError\<close>.
  \<^item> \<open>float_of_other k\<close>, \<open>bind_other k\<close>: \<^verbatim>\<open>float()\<close> of the object \<open>k\<close>, and what the
    database stores when the object is written to a \<^verbatim>\<open>String\<close> column; \<open>Inl m\<close>
    stands for an exception with the message \<open>m\<close>.
  \<^item> \<open>text_of_real\<close>: the text SQLite stores for a double written to a column of TEXT
    affinity.
  \<^item> \<open>uuid4 i\<close>: the identifier drawn by the call number \<open>i\<close> of a request.
  \<^item> \<open>real_sum xs\<close>: the database's SUM over the doubles \<open>xs\<close>, a list that is not
    empty; \<open>None\<close> (NULL) when the sum is NaN.
  \<^item> \<open>str_of_bytes b\<close>: the string pydantic reads bytes as when a \<^verbatim>\<open>str\<close> is asked
    for; \<open>None\<close> when it refuses them.
\<close>

subsection \<open>\<^verbatim>\<open>get_kpis\<close> (server.py, lines 75 to 91)\<close>

text \<open>\<^verbatim>\<open>select(func.count(Employee.id))\<close>: the rows whose key is not NULL, that is, all.\<close>

definition sql_count :: "store \<Rightarrow> nat option" where
  "sql_count db = Some (length db)"

text \<open>
  \<^verbatim>\<open>select(func.sum(Employee.monthly_income))\<close>: SUM skips NULL and is NULL when no
  row has a value.
\<close>

definition sql_sum :: "lib \<Rightarrow> store \<Rightarrow> double option" where
  "sql_sum l db =
     (case List.map_filter monthly_income db of
        [] \<Rightarrow> None
      | x # xs \<Rightarrow> real_sum l (x # xs))"

text \<open>
  \<^verbatim>\<open>scalar() or 0\<close>, with \<open>z\<close> the zero of the type: \<^verbatim>\<open>None\<close> and zero are both
  falsy. (The \<^verbatim>\<open>0\<close> that stands in for a float is an \<^verbatim>\<open>int\<close>; the division and
  the response model make it the float of the same value.)
\<close>

definition or0 :: "'a \<Rightarrow> 'a option \<Rightarrow> 'a" where
  "or0 z v = (case v of None \<Rightarrow> z | Some x \<Rightarrow> if x = z then z else x)"

text \<open>
  \<^verbatim>\<open>x / n\<close> for a float (or the \<^verbatim>\<open>int\<close> 0) \<open>x\<close> and a positive \<^verbatim>\<open>int\<close>
  \<open>n\<close>: \<open>n\<close> is converted to a float, and the quotient is rounded. The count of a table
  is below \<open>2 ^ 63\<close>, so its conversion is finite.
\<close>

definition truediv :: "double \<Rightarrow> nat \<Rightarrow> double" where
  "truediv d n =
     (case d of
        Fin x \<Rightarrow> (case nearest_double (of_nat n) of
                    Fin y \<Rightarrow> nearest_double (x / y)
                  | PInf \<Rightarrow> Fin 0
                  | NInf \<Rightarrow> Fin 0)
      | PInf \<Rightarrow> PInf
      | NInf \<Rightarrow> NInf)"

text \<open>
  \<^verbatim>\<open>round(x, 2)\<close> of a float: the exact value of \<open>x\<close> is rounded to the nearest
  multiple of \<open>1 / 100\<close>, a tie going to the even one, and the result is the double
  nearest to that; an infinity is returned as it is.
\<close>

definition py_round2 :: "double \<Rightarrow> double" where
  "py_round2 d =
     (case d of
        Fin x \<Rightarrow> nearest_double (of_int (round_half_even (x * 100)) / 100)
      | PInf \<Rightarrow> PInf
      | NInf \<Rightarrow> NInf)"

definition get_kpis :: "lib \<Rightarrow> store \<Rightarrow> KPIResponse" where
  "get_kpis l db =
     (let total_employees = or0 0 (sql_count db);
          total_payroll_cost = or0 (Fin 0) (sql_sum l db);
          avg = (if total_employees \<noteq> 0
                 then truediv total_payroll_cost total_employees else Fin 0)
      in \<lparr> total_employees = total_employees,
           total_payroll_cost = py_round2 total_payroll_cost,
           avg_salary = py_round2 avg \<rparr>)"

text \<open>
  The payroll sum and the average of the specification: the sum as the database reports
  it (zero when no record has an income), and its quotient by the record count.
\<close>

definition payroll_sum :: "lib \<Rightarrow> store \<Rightarrow> double" where
  "payroll_sum l db = (case sql_sum l db of None \<Rightarrow> Fin 0 | Some s \<Rightarrow> s)"

definition average :: "lib \<Rightarrow> store \<Rightarrow> double" where
  "average l db = (if length db = 0 then Fin 0 else truediv (payroll_sum l db) (length db))"

subsection \<open>\<^verbatim>\<open>get_employees\<close> (server.py, lines 95 to 109)\<close>

text \<open>
  What pydantic makes of the value of a \<^verbatim>\<open>String\<close> column for a field declared
  \<^verbatim>\<open>str\<close>: a text is taken as it is, \<^verbatim>\<open>None\<close> is refused, and the bytes of a
  BLOB are read as the library reads them.
\<close>

definition validate_str :: "lib \<Rightarrow> sql_text option \<Rightarrow> string option" where
  "validate_str l v =
     (case v of
        None \<Rightarrow> None
      | Some (Text s) \<Rightarrow> Some s
      | Some (Blob b) \<Rightarrow> str_of_bytes l b)"

text \<open>
  \<^verbatim>\<open>EmployeeResponse(id=e.id, ...)\<close>: pydantic validates the arguments against the
  declared field types. \<^verbatim>\<open>None\<close> is neither a \<^verbatim>\<open>str\<close> nor a
  \<^verbatim>\<open>float\<close>, so the constructor raises.
\<close>

definition make_response :: "lib \<Rightarrow> employee \<Rightarrow> py_exception + EmployeeResponse" where
  "make_response l e =
     (case (validate_str l (employee_id e), validate_str l (name e),
            validate_str l (department e), monthly_income e) of
        (Some i, Some n, Some d, Some m) \<Rightarrow>
          Inr \<lparr> r_id = id_col e, r_employee_id = i, r_name = n,
                r_department = d, r_monthly_income = m \<rparr>
      | _ \<Rightarrow> Inl (ValidationError ''validation error for EmployeeResponse''))"

text \<open>A list comprehension whose element expression can raise: the first exception leaves it.\<close>

fun comprehension :: "('a \<Rightarrow> py_exception + 'b) \<Rightarrow> 'a list \<Rightarrow> py_exception + 'b list" where
  "comprehension f [] = Inr []"
| "comprehension f (x # xs) =
     (case f x of
        Inl e \<Rightarrow> Inl e
      | Inr y \<Rightarrow> (case comprehension f xs of Inl e \<Rightarrow> Inl e | Inr ys \<Rightarrow> Inr (y # ys)))"

definition get_employees :: "lib \<Rightarrow> store \<Rightarrow> py_exception + EmployeeResponse list" where
  "get_employees l db = comprehension (make_response l) db"

subsection \<open>Operations used by \<^verbatim>\<open>upload_dataset\<close>\<close>

record upload_file =
  filename :: string
  contents :: "byte list"

record upload_response =
  status :: string
  rows_inserted :: nat

definition endswith :: "string \<Rightarrow> string \<Rightarrow> bool" where
  "endswith s suffix =
     (length suffix \<le> length s \<and> drop (length s - length suffix) s = suffix)"

text \<open>\<^verbatim>\<open>str.strip()\<close>, on code points below 256.\<close>

definition is_space :: "char \<Rightarrow> bool" where
  "is_space c = (of_char c \<in> set [9, 10, 11, 12, 13, 28, 29, 30, 31, 32, 133, 160 :: nat])"

definition py_strip :: "string \<Rightarrow> string" where
  "py_strip s = rev (dropWhile is_space (rev (dropWhile is_space s)))"

fun is_str :: "pyval \<Rightarrow> bool" where
  "is_str (PStr s) = True"
| "is_str v = False"

fun strip_label :: "pyval \<Rightarrow> string option" where
  "strip_label (PStr s) = Some (py_strip s)"
| "strip_label v = None"

text \<open>
  \<^verbatim>\<open>df.columns.str.strip()\<close> (line 130). The \<^verbatim>\<open>.str\<close> accessor raises
  \<^verbatim>\<open>AttributeError\<close> on an index that does not hold strings. The result lists the
  stripped labels; \<open>None\<close> is the NaN that takes the place of a label that is no string.
\<close>

definition strip_columns :: "lib \<Rightarrow> col_index \<Rightarrow> py_exception + string option list" where
  "strip_columns l idx =
     (case idx of
        OtherIndex ls \<Rightarrow> Inl (AttributeError ''Can only use .str accessor with string values'')
      | LabelIndex ls \<Rightarrow>
          if list_all is_str ls then Inr (map strip_label ls)
          else (case strip_mixed l ls of
                  None \<Rightarrow> Inl (AttributeError ''Can only use .str accessor with string values'')
                | Some r \<Rightarrow> Inr r))"

text \<open>
  \<^verbatim>\<open>row.get(key, default)\<close> on a row of \<^verbatim>\<open>df.iterrows()\<close>: the default when
  no column has the label, the cell when one has, the series of the cells when several
  have.
\<close>

definition row_get :: "string option list \<Rightarrow> pyval list \<Rightarrow> string \<Rightarrow> pyval \<Rightarrow> pyval" where
  "row_get cols row key dflt =
     (case map snd (filter (\<lambda>cv. fst cv = Some key) (zip cols row)) of
        [] \<Rightarrow> dflt
      | [v] \<Rightarrow> v
      | vs \<Rightarrow> PSeries vs)"

text \<open>
  \<^verbatim>\<open>float(n)\<close> of an \<^verbatim>\<open>int\<close>: the nearest double, and
  \<^verbatim>\<open>OverflowError\<close> when that is no finite number.
\<close>

definition float_of_int :: "int \<Rightarrow> py_exception + pyfloat" where
  "float_of_int n =
     (case nearest_double (of_int n) of
        Fin r \<Rightarrow> Inr (Float (Fin r))
      | PInf \<Rightarrow> Inl (OverflowError ''int too large to convert to float'')
      | NInf \<Rightarrow> Inl (OverflowError ''int too large to convert to float''))"

text \<open>\<^verbatim>\<open>float(v)\<close>.\<close>

fun py_float :: "lib \<Rightarrow> pyval \<Rightarrow> py_exception + pyfloat" where
  "py_float l PNone = Inl (TypeError ''float() argument must be a string or a real number'')"
| "py_float l (PStr s) =
     (case float_of_str l s of
        None \<Rightarrow> Inl (ValueError (''could not convert string to float: '' @ s))
      | Some x \<Rightarrow> Inr x)"
| "py_float l (PInt n) = float_of_int n"
| "py_float l (PFloat d) = Inr (Float d)"
| "py_float l PNaN = Inr NaN"
| "py_float l (PInt64 w) = float_of_int (sint w)"
| "py_float l (POther k) =
     (case float_of_other l k of Inl m \<Rightarrow> Inl (OtherError m) | Inr x \<Rightarrow> Inr x)"
| "py_float l (PSeries vs) = Inl (TypeError ''cannot convert the series to float'')"

subsection \<open>The session: staged objects and commit\<close>

text \<open>The \<^verbatim>\<open>Employee\<close> object as \<^verbatim>\<open>upload_dataset\<close> constructs it.\<close>

record new_employee =
  new_id :: string
  new_employee_id :: pyval
  new_name :: pyval
  new_department :: pyval
  new_monthly_income :: pyfloat

text \<open>The eight bytes of a \<^verbatim>\<open>numpy.int64\<close>, lowest first.\<close>

definition int64_bytes :: "64 word \<Rightarrow> byte list" where
  "int64_bytes w = map (\<lambda>i. ucast (drop_bit (8 * i) w)) [0 ..< 8]"

text \<open>
  Writing a Python value to a column declared \<^verbatim>\<open>String\<close> (TEXT affinity).
  \<^verbatim>\<open>None\<close> and NaN are stored as NULL; a string as itself; an \<^verbatim>\<open>int\<close> is bound
  as a 64-bit INTEGER (the driver raises \<^verbatim>\<open>OverflowError\<close> when it does not fit) and
  stored as its decimal text; a float is stored as its text; a \<^verbatim>\<open>numpy.int64\<close> is
  bound through the buffer protocol and stored as a BLOB; a series is no value the driver
  can bind.
\<close>

fun bind_text :: "lib \<Rightarrow> pyval \<Rightarrow> py_exception + sql_text option" where
  "bind_text l PNone = Inr None"
| "bind_text l (PStr s) = Inr (Some (Text s))"
| "bind_text l (PInt n) =
     (if - (2 ^ 63) \<le> n \<and> n < 2 ^ 63 then Inr (Some (Text (str_int n)))
      else Inl (OverflowError ''Python int too large to convert to SQLite INTEGER''))"
| "bind_text l (PFloat d) = Inr (Some (Text (text_of_real l d)))"
| "bind_text l PNaN = Inr None"
| "bind_text l (PInt64 w) = Inr (Some (Blob (int64_bytes w)))"
| "bind_text l (POther k) =
     (case bind_other l k of Inl m \<Rightarrow> Inl (OtherError m) | Inr v \<Rightarrow> Inr v)"
| "bind_text l (PSeries vs) = Inl (InterfaceError ''Error binding parameter: type is not supported'')"

text \<open>Writing a float to the \<^verbatim>\<open>Float\<close> column: NaN is stored as NULL.\<close>

fun bind_real :: "pyfloat \<Rightarrow> double option" where
  "bind_real (Float d) = Some d"
| "bind_real NaN = None"

text \<open>
  The row an object becomes. Columns the object does not set take their declared
  default: \<^verbatim>\<open>False\<close> for \<^verbatim>\<open>overtime\<close> and \<^verbatim>\<open>attrition\<close>, NULL otherwise.
\<close>

definition bind_row :: "lib \<Rightarrow> new_employee \<Rightarrow> py_exception + employee" where
  "bind_row l e =
     (case bind_text l (new_employee_id e) of
        Inl x \<Rightarrow> Inl x
      | Inr i \<Rightarrow>
     (case bind_text l (new_name e) of
        Inl x \<Rightarrow> Inl x
      | Inr n \<Rightarrow>
     (case bind_text l (new_department e) of
        Inl x \<Rightarrow> Inl x
      | Inr d \<Rightarrow>
          Inr \<lparr> id_col = new_id e, employee_id = i, name = n, age = None, gender = None,
                department = d, job_role = None,
                monthly_income = bind_real (new_monthly_income e),
                years_at_company = None, overtime = Some False, attrition = Some False,
                performance_rating = None \<rparr>)))"

text \<open>
  One INSERT inside the transaction: \<^verbatim>\<open>id\<close> is the primary key and
  \<^verbatim>\<open>employee_id\<close> is declared \<^verbatim>\<open>unique=True\<close> (models.py, line 10); a UNIQUE
  index treats NULLs as distinct, and two values as equal when they are the same text or
  the same BLOB.
\<close>

definition insert_row :: "lib \<Rightarrow> store \<Rightarrow> new_employee \<Rightarrow> py_exception + store" where
  "insert_row l tbl e =
     (case bind_row l e of
        Inl x \<Rightarrow> Inl x
      | Inr r \<Rightarrow>
          if id_col r \<in> set (map id_col tbl)
          then Inl (IntegrityError ''UNIQUE constraint failed: employees.id'')
          else if employee_id r \<noteq> None \<and> employee_id r \<in> set (map employee_id tbl)
          then Inl (IntegrityError ''UNIQUE constraint failed: employees.employee_id'')
          else Inr (tbl @ [r]))"

fun insert_all :: "lib \<Rightarrow> store \<Rightarrow> new_employee list \<Rightarrow> py_exception + store" where
  "insert_all l tbl [] = Inr tbl"
| "insert_all l tbl (e # es) =
     (case insert_row l tbl e of
        Inl x \<Rightarrow> Inl x
      | Inr tbl' \<Rightarrow> insert_all l tbl' es)"

text \<open>
  \<^verbatim>\<open>await db.commit()\<close>: the staged objects are flushed in the order they were added
  and the transaction is committed; an exception during the flush rolls the transaction
  back, and the store is what it was.
\<close>

definition commit :: "lib \<Rightarrow> store \<Rightarrow> new_employee list \<Rightarrow> (py_exception + unit) \<times> store" where
  "commit l db pending =
     (case insert_all l db pending of
        Inl x \<Rightarrow> (Inl x, db)
      | Inr db' \<Rightarrow> (Inr (), db'))"

subsection \<open>\<^verbatim>\<open>upload_dataset\<close> (server.py, lines 113 to 147)\<close>

text \<open>The body of the \<^verbatim>\<open>try\<close> block, lines 121 to 126.\<close>

definition load_table :: "lib \<Rightarrow> upload_file \<Rightarrow> py_exception + dataframe" where
  "load_table l file =
     (if endswith (filename file) ''.csv''
      then (case decode_utf8 l (contents file) of
              Inl x \<Rightarrow> Inl x
            | Inr s \<Rightarrow> read_csv l s)
      else if endswith (filename file) ''.xlsx''
      then read_excel l (contents file)
      else Inl (HTTPException 400 ''Upload CSV or XLSX only''))"

text \<open>The body of the loop, lines 133 to 139; \<open>i\<close> counts the calls of \<^verbatim>\<open>uuid4\<close>.\<close>

definition make_employee :: "lib \<Rightarrow> string option list \<Rightarrow> nat \<Rightarrow> pyval list \<Rightarrow> py_exception + new_employee" where
  "make_employee l cols i row =
     (case py_float l (row_get cols row ''MonthlyIncome'' (PInt 0)) of
        Inl x \<Rightarrow> Inl x
      | Inr m \<Rightarrow>
          Inr \<lparr> new_id = uuid4 l i,
                new_employee_id = row_get cols row ''EmployeeID'' PNone,
                new_name = row_get cols row ''Name'' PNone,
                new_department = row_get cols row ''Department'' PNone,
                new_monthly_income = m \<rparr>)"

text \<open>The loop, lines 132 to 140: \<open>pending\<close> is what \<^verbatim>\<open>db.add\<close> has staged so far.\<close>

fun stage :: "lib \<Rightarrow> string option list \<Rightarrow> nat \<Rightarrow> pyval list list \<Rightarrow> new_employee list
    \<Rightarrow> py_exception + new_employee list" where
  "stage l cols i [] pending = Inr pending"
| "stage l cols i (row # rest) pending =
     (case make_employee l cols i row of
        Inl x \<Rightarrow> Inl x
      | Inr e \<Rightarrow> stage l cols (Suc i) rest (pending @ [e]))"

text \<open>
  The handler. Only the parsing stands inside the \<^verbatim>\<open>try\<close>: an exception of line 130,
  of the loop or of the commit leaves the handler as it is.
\<close>

definition upload_dataset :: "lib \<Rightarrow> store \<Rightarrow> upload_file \<Rightarrow> (py_exception + upload_response) \<times> store" where
  "upload_dataset l db file =
     (case load_table l file of
        Inl x \<Rightarrow> (Inl (HTTPException 400 (''File error: '' @ str_exc x)), db)
      | Inr df \<Rightarrow>
          (case strip_columns l (columns df) of
             Inl x \<Rightarrow> (Inl x, db)
           | Inr cols \<Rightarrow>
               (case stage l cols 0 (rows df) [] of
                  Inl x \<Rightarrow> (Inl x, db)
                | Inr pending \<Rightarrow>
                    (case commit l db pending of
                       (Inl x, db') \<Rightarrow> (Inl x, db')
                     | (Inr u, db') \<Rightarrow>
                         (Inr \<lparr> status = ''success'', rows_inserted = length (rows df) \<rparr>, db')))))"

subsection \<open>Notions the properties are stated with\<close>

text \<open>
  A record for which the response model accepts all four values it asks for: none is
  NULL, and a text value stored as a BLOB is one that is read as a string.
\<close>

definition presentable :: "lib \<Rightarrow> employee \<Rightarrow> bool" where
  "presentable l e =
     (validate_str l (employee_id e) \<noteq> None \<and> validate_str l (name e) \<noteq> None \<and>
      validate_str l (department e) \<noteq> None \<and> monthly_income e \<noteq> None)"

text \<open>
  The objects the loop constructs for the rows \<open>rs\<close>, the first of them with call number
  \<open>i\<close>: one per row, in row order, or the first exception.
\<close>

definition planned :: "lib \<Rightarrow> string option list \<Rightarrow> nat \<Rightarrow> pyval list list \<Rightarrow> py_exception + new_employee list" where
  "planned l cols i rs =
     comprehension (\<lambda>p. make_employee l cols (fst p) (snd p)) (enumerate i rs)"

text \<open>The business identifier a row is stored under (\<open>None\<close>: NULL).\<close>

definition row_key :: "lib \<Rightarrow> string option list \<Rightarrow> pyval list \<Rightarrow> sql_text option" where
  "row_key l cols row =
     (case bind_text l (row_get cols row ''EmployeeID'' PNone) of
        Inl x \<Rightarrow> None
      | Inr k \<Rightarrow> k)"

text \<open>A computation that returns a value rather than raising.\<close>

definition returns :: "py_exception + 'a \<Rightarrow> bool" where
  "returns r = (case r of Inl x \<Rightarrow> False | Inr v \<Rightarrow> True)"

text \<open>
  A row the loop and the INSERT take: \<^verbatim>\<open>float()\<close> converts its income, and the
  driver binds its three text values.
\<close>

definition row_accepted :: "lib \<Rightarrow> string option list \<Rightarrow> pyval list \<Rightarrow> bool" where
  "row_accepted l cols row =
     (returns (py_float l (row_get cols row ''MonthlyIncome'' (PInt 0))) \<and>
      returns (bind_text l (row_get cols row ''EmployeeID'' PNone)) \<and>
      returns (bind_text l (row_get cols row ''Name'' PNone)) \<and>
      returns (bind_text l (row_get cols row ''Department'' PNone)))"

subsection \<open>Example inputs\<close>

text \<open>
  A library for the examples below, exact at the inputs they use:
  \<^item> \<open>ascii_decode\<close> is the utf-8 codec on input that is ASCII only; it refuses every other
    input, as the codec refuses the byte 0xFF (the only other input used);
  \<^item> \<open>float_of_literal\<close> is \<^verbatim>\<open>float()\<close> on a string: surrounding whitespace, a sign,
    \<^verbatim>\<open>inf\<close>, \<^verbatim>\<open>infinity\<close>, \<^verbatim>\<open>nan\<close>, or digits with an optional fraction
    and exponent (underscores between digits are not read);
  \<^item> \<open>known_tables\<close> lists what \<^verbatim>\<open>pandas.read_csv\<close> returns for the texts used;
  \<^item> \<open>sequential_sum\<close> adds doubles from left to right;
  \<^item> the remaining fields are placeholders that no example reaches.
\<close>

definition ascii_bytes :: "string \<Rightarrow> byte list" where
  "ascii_bytes s = map (\<lambda>c. of_nat (of_char c)) s"

definition ascii_text :: "byte list \<Rightarrow> string option" where
  "ascii_text bs =
     (if list_all (\<lambda>b. b < 128) bs then Some (map (\<lambda>b. char_of (unat b)) bs) else None)"

definition ascii_decode :: "byte list \<Rightarrow> py_exception + string" where
  "ascii_decode bs =
     (case ascii_text bs of
        Some s \<Rightarrow> Inr s
      | None \<Rightarrow> Inl (UnicodeDecodeError ''utf-8 codec cannot decode byte: invalid start byte''))"

definition is_digit :: "char \<Rightarrow> bool" where
  "is_digit c = (48 \<le> (of_char c :: nat) \<and> (of_char c :: nat) \<le> 57)"

definition nat_of_digits :: "string \<Rightarrow> nat" where
  "nat_of_digits ds = foldl (\<lambda>n c. 10 * n + (of_char c - 48)) 0 ds"

definition lower :: "char \<Rightarrow> char" where
  "lower c = (if 65 \<le> (of_char c :: nat) \<and> (of_char c :: nat) \<le> 90
              then char_of ((of_char c :: nat) + 32) else c)"

text \<open>A sign, then the rest.\<close>

definition split_sign :: "string \<Rightarrow> rat \<times> string" where
  "split_sign s =
     (case s of
        [] \<Rightarrow> (1, s)
      | c # t \<Rightarrow> if c = CHR ''-'' then (- 1, t) else if c = CHR ''+'' then (1, t) else (1, s))"

text \<open>The exponent part of a literal: empty, or \<^verbatim>\<open>e\<close>, an optional sign and digits.\<close>

definition exponent_of :: "string \<Rightarrow> int option" where
  "exponent_of s =
     (case s of
        [] \<Rightarrow> Some 0
      | c # t \<Rightarrow>
          if lower c = CHR ''e'' \<and> snd (split_sign t) \<noteq> [] \<and> list_all is_digit (snd (split_sign t))
          then Some ((if fst (split_sign t) < 0 then - 1 else 1) * int (nat_of_digits (snd (split_sign t))))
          else None)"

definition power10 :: "int \<Rightarrow> rat" where
  "power10 e = (if 0 \<le> e then 10 ^ nat e else 1 / 10 ^ nat (- e))"

definition float_of_literal :: "string \<Rightarrow> pyfloat option" where
  "float_of_literal s0 =
     (let sb = split_sign (py_strip s0);
          body = snd sb;
          word = map lower body;
          ip = takeWhile is_digit body;
          r1 = dropWhile is_digit body;
          fp = (case r1 of [] \<Rightarrow> [] | c # t \<Rightarrow> if c = CHR ''.'' then takeWhile is_digit t else []);
          r2 = (case r1 of [] \<Rightarrow> [] | c # t \<Rightarrow> if c = CHR ''.'' then dropWhile is_digit t else r1)
      in if word = ''inf'' \<or> word = ''infinity''
         then Some (Float (if fst sb < 0 then NInf else PInf))
         else if word = ''nan'' then Some NaN
         else if ip = [] \<and> fp = [] then None
         else (case exponent_of r2 of
                 None \<Rightarrow> None
               | Some e \<Rightarrow>
                   Some (Float (nearest_double
                     (fst sb * of_nat (nat_of_digits (ip @ fp)) * power10 (e - int (length fp)))))))"

fun add_double :: "double \<Rightarrow> double \<Rightarrow> double option" where
  "add_double (Fin a) (Fin b) = Some (nearest_double (a + b))"
| "add_double PInf NInf = None"
| "add_double NInf PInf = None"
| "add_double PInf d = Some PInf"
| "add_double d PInf = Some PInf"
| "add_double NInf d = Some NInf"
| "add_double d NInf = Some NInf"

definition sequential_sum :: "double list \<Rightarrow> double option" where
  "sequential_sum xs =
     foldl (\<lambda>acc x. case acc of None \<Rightarrow> None | Some a \<Rightarrow> add_double a x) (Some (Fin 0)) xs"

definition csv_text :: "string list \<Rightarrow> string" where
  "csv_text ls = concat (map (\<lambda>line. line @ [CHR 0x0A]) ls)"

definition header4 :: col_index where
  "header4 = LabelIndex [PStr ''EmployeeID'', PStr ''Name'', PStr ''Department'', PStr ''MonthlyIncome'']"

definition roster_csv :: string where
  "roster_csv = csv_text [''EmployeeID,Name,Department,MonthlyIncome'', ''E1,Alice,Eng,5000'']"

definition roster_table :: dataframe where
  "roster_table =
     \<lparr> columns = header4,
       rows = [[PStr ''E1'', PStr ''Alice'', PStr ''Eng'', PInt 5000]] \<rparr>"

definition bad_income_csv :: string where
  "bad_income_csv = csv_text [''EmployeeID,Name,Department,MonthlyIncome'', ''E1,Alice,Eng,abc'']"

definition bad_income_table :: dataframe where
  "bad_income_table =
     \<lparr> columns = header4,
       rows = [[PStr ''E1'', PStr ''Alice'', PStr ''Eng'', PStr ''abc'']] \<rparr>"

definition no_income_csv :: string where
  "no_income_csv = csv_text [''EmployeeID,Name,Department'', ''E1,Alice,Eng'']"

definition no_income_table :: dataframe where
  "no_income_table =
     \<lparr> columns = LabelIndex [PStr ''EmployeeID'', PStr ''Name'', PStr ''Department''],
       rows = [[PStr ''E1'', PStr ''Alice'', PStr ''Eng'']] \<rparr>"

definition no_name_csv :: string where
  "no_name_csv = csv_text [''EmployeeID,Department,MonthlyIncome'', ''E1,Eng,5000'']"

definition no_name_table :: dataframe where
  "no_name_table =
     \<lparr> columns = LabelIndex [PStr ''EmployeeID'', PStr ''Department'', PStr ''MonthlyIncome''],
       rows = [[PStr ''E1'', PStr ''Eng'', PInt 5000]] \<rparr>"

definition twice_csv :: string where
  "twice_csv = csv_text [''EmployeeID,Name,Department,MonthlyIncome'',
                         ''E1,Alice,Eng,5000'', ''E1,Bob,Ops,4000'']"

definition twice_table :: dataframe where
  "twice_table =
     \<lparr> columns = header4,
       rows = [[PStr ''E1'', PStr ''Alice'', PStr ''Eng'', PInt 5000],
               [PStr ''E1'', PStr ''Bob'', PStr ''Ops'', PInt 4000]] \<rparr>"

text \<open>
  The same two rows with an income that is no number in the first: the column then holds
  strings.
\<close>

definition twice_bad_csv :: string where
  "twice_bad_csv = csv_text [''EmployeeID,Name,Department,MonthlyIncome'',
                             ''E1,Alice,Eng,abc'', ''E1,Bob,Ops,4000'']"

definition twice_bad_table :: dataframe where
  "twice_bad_table =
     \<lparr> columns = header4,
       rows = [[PStr ''E1'', PStr ''Alice'', PStr ''Eng'', PStr ''abc''],
               [PStr ''E1'', PStr ''Bob'', PStr ''Ops'', PStr ''4000'']] \<rparr>"

text \<open>A file whose second data line holds separators only: a row of missing values.\<close>

definition sparse_csv :: string where
  "sparse_csv = csv_text [''EmployeeID,Name,Department,MonthlyIncome'',
                          ''E1,Alice,Eng,5000'', '',,,'']"

definition sparse_table :: dataframe where
  "sparse_table =
     \<lparr> columns = header4,
       rows = [[PStr ''E1'', PStr ''Alice'', PStr ''Eng'', PFloat (Fin 5000)],
               [PNaN, PNaN, PNaN, PNaN]] \<rparr>"

text \<open>
  A file of numbers only: every column is integer, and the cells of a row are
  \<^verbatim>\<open>numpy.int64\<close>.
\<close>

definition numeric_csv :: string where
  "numeric_csv = csv_text [''EmployeeID,MonthlyIncome'', ''101,5000'']"

definition numeric_table :: dataframe where
  "numeric_table =
     \<lparr> columns = LabelIndex [PStr ''EmployeeID'', PStr ''MonthlyIncome''],
       rows = [[PInt64 101, PInt64 5000]] \<rparr>"

definition known_tables :: "(string \<times> dataframe) list" where
  "known_tables =
     [(roster_csv, roster_table), (bad_income_csv, bad_income_table),
      (no_income_csv, no_income_table), (no_name_csv, no_name_table),
      (twice_csv, twice_table), (twice_bad_csv, twice_bad_table),
      (sparse_csv, sparse_table), (numeric_csv, numeric_table)]"

definition example_lib :: lib where
  "example_lib =
     \<lparr> decode_utf8 = ascii_decode,
       read_csv = (\<lambda>s. case map_of known_tables s of
                          Some df \<Rightarrow> Inr df
                        | None \<Rightarrow> Inl (ParserError ''Error tokenizing data'')),
       read_excel = (\<lambda>bs. Inl (ValueError ''Excel file format cannot be determined'')),
       strip_mixed = (\<lambda>ls. Some (map strip_label ls)),
       float_of_str = float_of_literal,
       float_of_other = (\<lambda>k. Inl ''float() argument must be a string or a real number''),
       bind_other = (\<lambda>k. Inl ''Error binding parameter: type is not supported''),
       text_of_real = (\<lambda>d. case d of Fin r \<Rightarrow> str_int \<lfloor>r\<rfloor> @ ''.0'' | PInf \<Rightarrow> ''Inf'' | NInf \<Rightarrow> ''-Inf''),
       uuid4 = (\<lambda>i. ''uuid-'' @ str_nat i),
       real_sum = sequential_sum,
       str_of_bytes = ascii_text \<rparr>"

definition csv_upload :: "string \<Rightarrow> string \<Rightarrow> upload_file" where
  "csv_upload fname text = \<lparr> filename = fname, contents = ascii_bytes text \<rparr>"

text \<open>A stored record with the given key, business identifier, name and income.\<close>

definition stored :: "string \<Rightarrow> sql_text option \<Rightarrow> sql_text option \<Rightarrow> double option \<Rightarrow> employee" where
  "stored i k n m =
     \<lparr> id_col = i, employee_id = k, name = n, age = Some 30, gender = Some ''F'',
       department = Some (Text ''Eng''), job_role = Some ''Engineer'', monthly_income = m,
       years_at_company = Some 4, overtime = Some False, attrition = Some False,
       performance_rating = Some 3 \<rparr>"

section \<open>Properties\<close>

subsection \<open>Doubles\<close>

text \<open>The model of rounding at some known doubles: 0.1, 1.0 / 40, 0.33 and \<open>10 ^ 16 + 1\<close>.\<close>

lemma nearest_double_examples:
  "nearest_double (1 / 10) = Fin (3602879701896397 / 36028797018963968)"
  "nearest_double (1 / 40) = Fin (3602879701896397 / 144115188075855872)"
  "nearest_double (33 / 100) = Fin (5944751508129055 / 18014398509481984)"
  "nearest_double 10000000000000001 = Fin 10000000000000000"
  by code_simp+

lemma round_half_even_near: "\<bar>of_int (round_half_even y) - y\<bar> \<le> 1 / 2"
proof -
  have a: "of_int \<lfloor>y\<rfloor> \<le> y" by (rule of_int_floor_le)
  have b: "y < of_int \<lfloor>y\<rfloor> + 1" by linarith
  show ?thesis
    using a b unfolding round_half_even_def Let_def
    by (auto simp: abs_le_iff)
qed

lemma two_decimals_near: "\<bar>of_int (round_half_even (x * 100)) / 100 - x\<bar> \<le> 1 / 200"
proof -
  have "\<bar>of_int (round_half_even (x * 100)) - x * 100\<bar> \<le> 1 / 2"
    by (rule round_half_even_near)
  then show ?thesis
    by (simp add: abs_le_iff field_simps)
qed

lemma py_round2_zero: "py_round2 (Fin 0) = Fin 0"
  by (simp add: py_round2_def round_half_even_def nearest_double_def)

subsection \<open>Aggregation\<close>

lemma or0_sql_sum: "or0 (Fin 0) (sql_sum l db) = payroll_sum l db"
  by (simp add: or0_def payroll_sum_def split: option.splits)

lemma or0_sql_count: "or0 0 (sql_count db) = length db"
  by (simp add: or0_def sql_count_def)

lemma payroll_sum_Nil: "payroll_sum l [] = Fin 0"
  by (simp add: payroll_sum_def sql_sum_def List.map_filter_simps)

lemma get_kpis_fields:
  "total_employees (get_kpis l db) = length db"
  "total_payroll_cost (get_kpis l db) = py_round2 (payroll_sum l db)"
  "avg_salary (get_kpis l db) = py_round2 (average l db)"
  by (simp_all add: get_kpis_def Let_def or0_sql_sum or0_sql_count average_def)

text \<open>
  Three records with incomes 1, 0 and 0: the payroll sum is 1, its quotient by the count
  is the double 0.3333333333333333, and the \<^verbatim>\<open>avg_salary\<close> returned is the double
  0.33.
\<close>

theorem kpi_average_unrounded_counterexample:
  "payroll_sum example_lib
     [stored ''a'' (Some (Text ''E1'')) (Some (Text ''Ann'')) (Some (Fin 1)),
      stored ''b'' (Some (Text ''E2'')) (Some (Text ''Bob'')) (Some (Fin 0)),
      stored ''c'' (Some (Text ''E3'')) (Some (Text ''Cy'')) (Some (Fin 0))] = Fin 1
   \<and> truediv (Fin 1) 3 = Fin (6004799503160661 / 18014398509481984)
   \<and> avg_salary (get_kpis example_lib
     [stored ''a'' (Some (Text ''E1'')) (Some (Text ''Ann'')) (Some (Fin 1)),
      stored ''b'' (Some (Text ''E2'')) (Some (Text ''Bob'')) (Some (Fin 0)),
      stored ''c'' (Some (Text ''E3'')) (Some (Text ''Cy'')) (Some (Fin 0))])
       = Fin (5944751508129055 / 18014398509481984)"
  by code_simp

text \<open>
  Claim C1, as amended. For every state of the store, the \<^verbatim>\<open>avg_salary\<close> that
  \<^verbatim>\<open>GET /api/kpis\<close> returns is the payroll sum divided by the record count (a
  division of doubles), rounded to two decimal places by \<^verbatim>\<open>round\<close>, when the count is
  greater than zero, and 0 when the count is zero; \<^verbatim>\<open>total_employees\<close> is the record
  count; and the empty store yields \<^verbatim>\<open>total_employees\<close> 0,
  \<^verbatim>\<open>total_payroll_cost\<close> 0.0 and \<^verbatim>\<open>avg_salary\<close> 0.0.
\<close>

theorem kpi_average:
  "avg_salary (get_kpis l db) =
     (if 0 < length db then py_round2 (truediv (payroll_sum l db) (length db)) else Fin 0)
   \<and> total_employees (get_kpis l db) = length db
   \<and> get_kpis l [] = \<lparr> total_employees = 0, total_payroll_cost = Fin 0, avg_salary = Fin 0 \<rparr>"
proof -
  have "get_kpis l [] = \<lparr> total_employees = 0, total_payroll_cost = Fin 0, avg_salary = Fin 0 \<rparr>"
    by (simp add: get_kpis_def Let_def or0_sql_sum or0_sql_count payroll_sum_Nil py_round2_zero)
  then show ?thesis
    by (simp add: get_kpis_fields average_def py_round2_zero)
qed

text \<open>
  A store whose one record has an infinite income (as an uploaded \<^verbatim>\<open>inf\<close> or
  \<^verbatim>\<open>1e400\<close> is stored): both money fields are infinite.
\<close>

theorem kpi_money_infinite_counterexample:
  "total_payroll_cost (get_kpis example_lib
      [stored ''a'' (Some (Text ''E1'')) (Some (Text ''Ann'')) (Some PInf)]) = PInf
   \<and> avg_salary (get_kpis example_lib
      [stored ''a'' (Some (Text ''E1'')) (Some (Text ''Ann'')) (Some PInf)]) = PInf"
  by code_simp

text \<open>
  Claim C7, as amended. For every state of the store whose payroll sum is finite,
  \<^verbatim>\<open>total_payroll_cost\<close> is the double nearest to a number with two decimal places,
  and this number is within half a hundredth of the sum; whenever the average (the
  quotient of the sum by the count, or zero) is finite, the same holds of
  \<^verbatim>\<open>avg_salary\<close> and the average. An infinite sum or average is returned as it is.
\<close>

theorem kpi_money_two_decimals:
  "(\<forall>x. payroll_sum l db = Fin x \<longrightarrow>
      (\<exists>k. total_payroll_cost (get_kpis l db) = nearest_double (of_int k / 100)
           \<and> \<bar>of_int k / 100 - x\<bar> \<le> 1 / 200))
   \<and> (\<forall>q. average l db = Fin q \<longrightarrow>
      (\<exists>k. avg_salary (get_kpis l db) = nearest_double (of_int k / 100)
           \<and> \<bar>of_int k / 100 - q\<bar> \<le> 1 / 200))
   \<and> (payroll_sum l db = PInf \<longrightarrow> total_payroll_cost (get_kpis l db) = PInf)
   \<and> (payroll_sum l db = NInf \<longrightarrow> total_payroll_cost (get_kpis l db) = NInf)
   \<and> (average l db = PInf \<longrightarrow> avg_salary (get_kpis l db) = PInf)
   \<and> (average l db = NInf \<longrightarrow> avg_salary (get_kpis l db) = NInf)"
proof -
  have fin: "\<exists>k. py_round2 (Fin x) = nearest_double (of_int k / 100)
                \<and> \<bar>of_int k / 100 - x\<bar> \<le> 1 / 200" for x
    using two_decimals_near[of x] by (auto simp: py_round2_def)
  have inf: "py_round2 PInf = PInf" "py_round2 NInf = NInf"
    by (simp_all add: py_round2_def)
  show ?thesis
    using fin inf by (simp add: get_kpis_fields)
qed

theorem kpi_money_two_decimals_witness:
  "payroll_sum example_lib
     [stored ''a'' (Some (Text ''E1'')) (Some (Text ''Ann'')) (Some (Fin 1)),
      stored ''b'' (Some (Text ''E2'')) (Some (Text ''Bob'')) (Some (Fin 0)),
      stored ''c'' (Some (Text ''E3'')) (Some (Text ''Cy'')) (Some (Fin 0))] = Fin 1
   \<and> (\<exists>k. total_payroll_cost (get_kpis example_lib
     [stored ''a'' (Some (Text ''E1'')) (Some (Text ''Ann'')) (Some (Fin 1)),
      stored ''b'' (Some (Text ''E2'')) (Some (Text ''Bob'')) (Some (Fin 0)),
      stored ''c'' (Some (Text ''E3'')) (Some (Text ''Cy'')) (Some (Fin 0))])
         = nearest_double (of_int k / 100) \<and> \<bar>of_int k / 100 - 1\<bar> \<le> (1 / 200 :: rat))
   \<and> total_payroll_cost (get_kpis example_lib
     [stored ''a'' (Some (Text ''E1'')) (Some (Text ''Ann'')) (Some (Fin 1)),
      stored ''b'' (Some (Text ''E2'')) (Some (Text ''Bob'')) (Some (Fin 0)),
      stored ''c'' (Some (Text ''E3'')) (Some (Text ''Cy'')) (Some (Fin 0))]) = Fin 1
   \<and> payroll_sum example_lib
     [stored ''a'' (Some (Text ''E1'')) (Some (Text ''Ann'')) (Some PInf)] = PInf
   \<and> total_payroll_cost (get_kpis example_lib
     [stored ''a'' (Some (Text ''E1'')) (Some (Text ''Ann'')) (Some PInf)]) = PInf"
proof -
  let ?db = "[stored ''a'' (Some (Text ''E1'')) (Some (Text ''Ann'')) (Some (Fin 1)),
      stored ''b'' (Some (Text ''E2'')) (Some (Text ''Bob'')) (Some (Fin 0)),
      stored ''c'' (Some (Text ''E3'')) (Some (Text ''Cy'')) (Some (Fin 0))]"
  let ?inf = "[stored ''a'' (Some (Text ''E1'')) (Some (Text ''Ann'')) (Some PInf)]"
  have s: "payroll_sum example_lib ?db = Fin 1" by code_simp
  have t: "total_payroll_cost (get_kpis example_lib ?db) = Fin 1" by code_simp
  have i: "payroll_sum example_lib ?inf = PInf" by code_simp
  from kpi_money_two_decimals[of example_lib ?db] s have k: "\<exists>k. total_payroll_cost (get_kpis example_lib ?db)
         = nearest_double (of_int k / 100) \<and> \<bar>of_int k / 100 - 1\<bar> \<le> (1 / 200 :: rat)"
    by blast
  from kpi_money_two_decimals[of example_lib ?inf] i
  have j: "total_payroll_cost (get_kpis example_lib ?inf) = PInf" by blast
  from s k t i j show ?thesis by (intro conjI)
qed

subsection \<open>Rejected uploads\<close>

lemma str_nat_400: "str_nat 400 = ''400''"
  by code_simp

text \<open>
  Claim C4. An upload whose declared filename ends with neither \<^verbatim>\<open>.csv\<close> nor
  \<^verbatim>\<open>.xlsx\<close> is answered with status 400 and a message that names the accepted
  formats, whatever the content of the file, the library and the store are; the store
  is left as it was.
\<close>

theorem unsupported_suffix_is_400:
  assumes "\<not> endswith (filename file) ''.csv''" and "\<not> endswith (filename file) ''.xlsx''"
  shows "upload_dataset l db file =
           (Inl (HTTPException 400 ''File error: 400: Upload CSV or XLSX only''), db)
         \<and> http_status (fst (upload_dataset l db file)) = 400"
  using assms by (simp add: upload_dataset_def load_table_def str_nat_400)

theorem unsupported_suffix_is_400_witness:
  "\<not> endswith ''data.txt'' ''.csv'' \<and> \<not> endswith ''data.txt'' ''.xlsx''
   \<and> upload_dataset example_lib [] (csv_upload ''data.txt'' roster_csv) =
       (Inl (HTTPException 400 ''File error: 400: Upload CSV or XLSX only''), [])
   \<and> http_status (fst (upload_dataset example_lib [] (csv_upload ''data.txt'' roster_csv))) = 400"
proof -
  have a: "\<not> endswith (filename (csv_upload ''data.txt'' roster_csv)) ''.csv''"
    by (simp add: csv_upload_def endswith_def)
  have b: "\<not> endswith (filename (csv_upload ''data.txt'' roster_csv)) ''.xlsx''"
    by (simp add: csv_upload_def endswith_def)
  show ?thesis
    using unsupported_suffix_is_400[OF a b, of example_lib "[]"] a b
    by (simp add: csv_upload_def)
qed

text \<open>
  Claim C5. When the filename has an accepted suffix and the content fails to parse (the
  bytes of a \<^verbatim>\<open>.csv\<close> do not decode, its text is refused by the reader, or the
  bytes of an \<^verbatim>\<open>.xlsx\<close> are refused by the reader) with the exception \<open>x\<close>, the
  upload is answered with status 400 and the message \<^verbatim>\<open>File error: \<close> followed by
  the message of \<open>x\<close>; the store is left as it was.
\<close>

theorem parse_failure_is_400:
  assumes "(endswith (filename file) ''.csv'' \<and>
              (decode_utf8 l (contents file) = Inl x \<or>
               (\<exists>s. decode_utf8 l (contents file) = Inr s \<and> read_csv l s = Inl x)))
           \<or> (\<not> endswith (filename file) ''.csv'' \<and> endswith (filename file) ''.xlsx'' \<and>
               read_excel l (contents file) = Inl x)"
  shows "upload_dataset l db file = (Inl (HTTPException 400 (''File error: '' @ str_exc x)), db)
         \<and> http_status (fst (upload_dataset l db file)) = 400"
  using assms by (auto simp: upload_dataset_def load_table_def)

theorem parse_failure_is_400_witness:
  "endswith ''staff.csv'' ''.csv''
   \<and> decode_utf8 example_lib [0xFF, 0x41] =
        Inl (UnicodeDecodeError ''utf-8 codec cannot decode byte: invalid start byte'')
   \<and> upload_dataset example_lib [] \<lparr> filename = ''staff.csv'', contents = [0xFF, 0x41] \<rparr> =
       (Inl (HTTPException 400 ''File error: utf-8 codec cannot decode byte: invalid start byte''), [])
   \<and> http_status (fst (upload_dataset example_lib []
         \<lparr> filename = ''staff.csv'', contents = [0xFF, 0x41] \<rparr>)) = 400"
proof -
  have a: "endswith ''staff.csv'' ''.csv''"
    by (simp add: endswith_def)
  have b: "decode_utf8 example_lib [0xFF, 0x41] =
        Inl (UnicodeDecodeError ''utf-8 codec cannot decode byte: invalid start byte'')"
    by code_simp
  show ?thesis
    using parse_failure_is_400[of "\<lparr> filename = ''staff.csv'', contents = [0xFF, 0x41] \<rparr>"
        example_lib "UnicodeDecodeError ''utf-8 codec cannot decode byte: invalid start byte''" "[]"]
      a b
    by simp
qed

subsection \<open>Staging and commit\<close>

lemma stage_planned:
  "stage l cols i rs pending =
     (case planned l cols i rs of Inl x \<Rightarrow> Inl x | Inr es \<Rightarrow> Inr (pending @ es))"
  unfolding planned_def
  by (induction rs arbitrary: i pending) (auto split: sum.splits)

lemma comprehension_length: "comprehension f xs = Inr ys \<Longrightarrow> length ys = length xs"
  by (induction xs arbitrary: ys) (auto split: sum.splits)

lemma comprehension_Inl:
  "comprehension f xs = Inl e \<Longrightarrow> \<exists>x \<in> set xs. f x = Inl e"
  by (induction xs) (auto split: sum.splits)

lemma planned_length: "planned l cols i rs = Inr es \<Longrightarrow> length es = length rs"
  unfolding planned_def by (drule comprehension_length) simp

lemma insert_all_append:
  "insert_all l tbl es = Inr tbl' \<Longrightarrow>
     \<exists>new. tbl' = tbl @ new \<and> map (bind_row l) es = map Inr new"
proof (induction es arbitrary: tbl)
  case Nil
  then show ?case by simp
next
  case (Cons e es)
  from Cons.prems obtain t where t: "insert_row l tbl e = Inr t" and r: "insert_all l t es = Inr tbl'"
    by (auto split: sum.splits)
  from t obtain r0 where r0: "bind_row l e = Inr r0" "t = tbl @ [r0]"
    by (auto simp: insert_row_def split: sum.splits if_splits)
  from Cons.IH[OF r] obtain new where "tbl' = t @ new" "map (bind_row l) es = map Inr new" by blast
  with r0 show ?case by (intro exI[of _ "r0 # new"]) simp
qed

lemma insert_all_unique:
  "insert_all l tbl es = Inr (tbl @ new) \<Longrightarrow>
     distinct (filter (\<lambda>k. k \<noteq> None) (map employee_id new)) \<and>
     (\<forall>r \<in> set new. employee_id r \<noteq> None \<longrightarrow> employee_id r \<notin> set (map employee_id tbl))"
proof (induction es arbitrary: tbl new)
  case Nil
  then show ?case by simp
next
  case (Cons e es)
  from Cons.prems obtain t where t: "insert_row l tbl e = Inr t" and r: "insert_all l t es = Inr (tbl @ new)"
    by (auto split: sum.splits)
  from t obtain r0 where r0: "bind_row l e = Inr r0" "t = tbl @ [r0]"
     and fresh: "employee_id r0 \<noteq> None \<longrightarrow> employee_id r0 \<notin> set (map employee_id tbl)"
    by (auto simp: insert_row_def split: sum.splits if_splits)
  from insert_all_append[OF r] obtain new' where n': "tbl @ new = t @ new'" by blast
  with r0 have new: "new = r0 # new'" by simp
  from r n' have "insert_all l t es = Inr (t @ new')" by simp
  from Cons.IH[OF this] have
    d: "distinct (filter (\<lambda>k. k \<noteq> None) (map employee_id new'))" and
    f: "\<forall>r \<in> set new'. employee_id r \<noteq> None \<longrightarrow> employee_id r \<notin> set (map employee_id t)"
    by blast+
  show ?case
    using d f fresh unfolding new r0 by auto
qed

lemma insert_all_succeeds:
  "map (bind_row l) es = map Inr new \<Longrightarrow>
   distinct (map id_col new) \<Longrightarrow>
   set (map id_col new) \<inter> set (map id_col tbl) = {} \<Longrightarrow>
   distinct (filter (\<lambda>k. k \<noteq> None) (map employee_id new)) \<Longrightarrow>
   (\<forall>k \<in> set (map employee_id new). k \<noteq> None \<longrightarrow> k \<notin> set (map employee_id tbl)) \<Longrightarrow>
   insert_all l tbl es = Inr (tbl @ new)"
proof (induction es arbitrary: tbl new)
  case Nil
  then show ?case by simp
next
  case (Cons e es)
  from Cons.prems(1) obtain r0 new' where new: "new = r0 # new'"
    and r0: "bind_row l e = Inr r0" and rest: "map (bind_row l) es = map Inr new'"
    by (cases new) auto
  have id_new: "id_col r0 \<notin> set (map id_col new')" and id_dist: "distinct (map id_col new')"
    using Cons.prems(2) unfolding new by simp_all
  have id_tbl: "id_col r0 \<notin> set (map id_col tbl)"
    and ids_tbl: "set (map id_col new') \<inter> set (map id_col tbl) = {}"
    using Cons.prems(3) unfolding new by simp_all
  have key_tbl: "employee_id r0 \<noteq> None \<longrightarrow> employee_id r0 \<notin> set (map employee_id tbl)"
    and keys_tbl: "\<forall>k\<in>set (map employee_id new'). k \<noteq> None \<longrightarrow> k \<notin> set (map employee_id tbl)"
    using Cons.prems(5) unfolding new by simp_all
  have key_dist: "distinct (filter (\<lambda>k. k \<noteq> None) (map employee_id new'))"
    using Cons.prems(4) unfolding new by (cases "employee_id r0 = None") simp_all
  have key_new: "employee_id r0 \<noteq> None \<longrightarrow> employee_id r0 \<notin> set (map employee_id new')"
    using Cons.prems(4) unfolding new by (cases "employee_id r0 = None") simp_all
  have step: "insert_row l tbl e = Inr (tbl @ [r0])"
    using id_tbl key_tbl r0 unfolding insert_row_def by (cases "employee_id r0") simp_all
  have "insert_all l (tbl @ [r0]) es = Inr ((tbl @ [r0]) @ new')"
  proof (rule Cons.IH[OF rest id_dist _ key_dist])
    show "set (map id_col new') \<inter> set (map id_col (tbl @ [r0])) = {}"
      using ids_tbl id_new by simp
    show "\<forall>k\<in>set (map employee_id new'). k \<noteq> None \<longrightarrow> k \<notin> set (map employee_id (tbl @ [r0]))"
    proof
      fix k assume k: "k \<in> set (map employee_id new')"
      show "k \<noteq> None \<longrightarrow> k \<notin> set (map employee_id (tbl @ [r0]))"
      proof
        assume n: "k \<noteq> None"
        with keys_tbl k have "k \<notin> set (map employee_id tbl)" by blast
        moreover have "k \<noteq> employee_id r0" using key_new k n by blast
        ultimately show "k \<notin> set (map employee_id (tbl @ [r0]))" by simp
      qed
    qed
  qed
  with step show ?case by (simp add: new)
qed

lemma make_employee_bound:
  "make_employee l cols i row = Inr e \<Longrightarrow> bind_row l e = Inr r \<Longrightarrow>
     id_col r = uuid4 l i \<and> employee_id r = row_key l cols row"
  by (auto simp: make_employee_def bind_row_def row_key_def split: sum.splits)

lemma row_accepted_bound:
  "row_accepted l cols row \<Longrightarrow>
     \<exists>e r. make_employee l cols i row = Inr e \<and> bind_row l e = Inr r"
  by (auto simp: row_accepted_def returns_def make_employee_def bind_row_def split: sum.splits)

lemma planned_bound:
  "planned l cols i rs = Inr es \<Longrightarrow> map (bind_row l) es = map Inr new \<Longrightarrow>
     map id_col new = map (uuid4 l) [i ..< i + length rs] \<and>
     map employee_id new = map (row_key l cols) rs"
proof (induction rs arbitrary: i es new)
  case Nil
  then show ?case by (simp add: planned_def)
next
  case (Cons row rs)
  from Cons.prems(1) obtain e es' where es: "es = e # es'"
    and e: "make_employee l cols i row = Inr e" and p: "planned l cols (Suc i) rs = Inr es'"
    by (auto simp: planned_def split: sum.splits)
  from Cons.prems(2) es obtain r new' where new: "new = r # new'"
    and r: "bind_row l e = Inr r" and b: "map (bind_row l) es' = map Inr new'"
    by (cases new) auto
  have u: "[i ..< i + length (row # rs)] = i # [Suc i ..< Suc i + length rs]"
    by (subst upt_rec) simp
  from Cons.IH[OF p b] make_employee_bound[OF e r] show ?case
    unfolding u by (simp add: new)
qed

lemma planned_accepted:
  "list_all (row_accepted l cols) rs \<Longrightarrow>
     \<exists>es new. planned l cols i rs = Inr es \<and> map (bind_row l) es = map Inr new"
proof (induction rs arbitrary: i)
  case Nil
  then show ?case by (simp add: planned_def)
next
  case (Cons row rs)
  then obtain es new where p: "planned l cols (Suc i) rs = Inr es" and b: "map (bind_row l) es = map Inr new"
    by fastforce
  from Cons.prems obtain e r where e: "make_employee l cols i row = Inr e" and r: "bind_row l e = Inr r"
    using row_accepted_bound[of l cols row i] by auto
  show ?case
    using p b e r unfolding planned_def
    by (intro exI[of _ "e # es"] exI[of _ "r # new"]) simp
qed

lemma py_float_error:
  "py_float l v = Inl x \<Longrightarrow>
     (\<exists>m. x = ValueError m) \<or> (\<exists>m. x = TypeError m) \<or> (\<exists>m. x = OverflowError m)
     \<or> (\<exists>m. x = OtherError m)"
  by (cases v) (auto simp: float_of_int_def split: option.splits sum.splits double.splits)

lemma make_employee_error:
  "make_employee l cols i row = Inl x \<Longrightarrow>
     py_float l (row_get cols row ''MonthlyIncome'' (PInt 0)) = Inl x"
  by (auto simp: make_employee_def split: sum.splits)

lemma server_error_stage:
  "make_employee l cols i row = Inl x \<Longrightarrow> http_status (Inl x) = 500"
  by (drule make_employee_error, drule py_float_error) auto

lemma server_error_planned:
  "planned l cols i rs = Inl x \<Longrightarrow> http_status (Inl x) = 500"
  unfolding planned_def by (drule comprehension_Inl) (auto dest: server_error_stage)

lemma server_error_bind_text: "bind_text l v = Inl x \<Longrightarrow> http_status (Inl x) = 500"
  by (cases v) (auto split: if_splits sum.splits)

lemma server_error_insert_row:
  "insert_row l tbl e = Inl x \<Longrightarrow> http_status (Inl x) = 500"
  by (auto simp: insert_row_def bind_row_def split: sum.splits if_splits dest: server_error_bind_text)

lemma server_error_insert_all:
  "insert_all l tbl es = Inl x \<Longrightarrow> http_status (Inl x) = 500"
  by (induction es arbitrary: tbl) (auto split: sum.splits dest: server_error_insert_row)

subsection \<open>The upload as a whole\<close>

lemma upload_dataset_loaded:
  "load_table l file = Inr df \<Longrightarrow> strip_columns l (columns df) = Inr cols \<Longrightarrow>
   upload_dataset l db file =
     (case planned l cols 0 (rows df) of
        Inl x \<Rightarrow> (Inl x, db)
      | Inr es \<Rightarrow>
          (case insert_all l db es of
             Inl x \<Rightarrow> (Inl x, db)
           | Inr db' \<Rightarrow> (Inr \<lparr> status = ''success'', rows_inserted = length (rows df) \<rparr>, db')))"
  by (simp add: upload_dataset_def stage_planned commit_def split: sum.splits)

lemma upload_dataset_not_loaded:
  "load_table l file = Inl x \<Longrightarrow>
   upload_dataset l db file = (Inl (HTTPException 400 (''File error: '' @ str_exc x)), db)"
  by (simp add: upload_dataset_def)

lemma upload_dataset_not_stripped:
  "load_table l file = Inr df \<Longrightarrow> strip_columns l (columns df) = Inl x \<Longrightarrow>
   upload_dataset l db file = (Inl x, db)"
  by (simp add: upload_dataset_def)

lemma server_error_strip: "strip_columns l idx = Inl x \<Longrightarrow> http_status (Inl x) = 500"
  by (auto simp: strip_columns_def split: col_index.splits if_splits option.splits)

text \<open>
  Claim C6. Whatever the library, the store and the file are, an upload either raises
  and leaves the store exactly as it was, or returns and has appended to the store one
  record for every row of the parsed table, in row order: the records the objects
  constructed by the loop are bound to. Nothing in between is possible, since the loop
  only stages and the single commit at the end inserts inside one transaction.
\<close>

theorem upload_all_or_nothing:
  "(\<exists>x. upload_dataset l db file = (Inl x, db))
   \<or> (\<exists>df cols es new.
         load_table l file = Inr df
         \<and> strip_columns l (columns df) = Inr cols
         \<and> planned l cols 0 (rows df) = Inr es
         \<and> map (bind_row l) es = map Inr new
         \<and> length new = length (rows df)
         \<and> upload_dataset l db file =
             (Inr \<lparr> status = ''success'', rows_inserted = length (rows df) \<rparr>, db @ new))"
proof (cases "load_table l file")
  case (Inl x)
  then show ?thesis by (simp add: upload_dataset_not_loaded)
next
  case (Inr df)
  note df = this
  show ?thesis
  proof (cases "strip_columns l (columns df)")
    case (Inl x)
    with df show ?thesis by (simp add: upload_dataset_not_stripped)
  next
    case (Inr cols)
    note cols = this
    show ?thesis
    proof (cases "planned l cols 0 (rows df)")
      case (Inl x)
      with df cols show ?thesis by (simp add: upload_dataset_loaded)
    next
      case (Inr es)
      note es = this
      show ?thesis
      proof (cases "insert_all l db es")
        case (Inl x)
        with df cols es show ?thesis by (simp add: upload_dataset_loaded)
      next
        case (Inr db')
        from insert_all_append[OF this] obtain new
          where new: "db' = db @ new" "map (bind_row l) es = map Inr new" by blast
        from new(2) have "length es = length new" by (rule map_eq_imp_length_eq)
        with planned_length[OF es] have len: "length new = length (rows df)" by simp
        have "upload_dataset l db file =
               (Inr \<lparr> status = ''success'', rows_inserted = length (rows df) \<rparr>, db @ new)"
          using df cols es Inr new(1) by (simp add: upload_dataset_loaded)
        with df cols es new(2) len show ?thesis by blast
      qed
    qed
  qed
qed

text \<open>
  A well-formed CSV file with one data row whose \<^verbatim>\<open>MonthlyIncome\<close> cell reads
  \<^verbatim>\<open>abc\<close>: the table has one row, and the upload raises the \<^verbatim>\<open>ValueError\<close> of
  \<^verbatim>\<open>float("abc")\<close> and inserts nothing.
\<close>

theorem unparsable_row_rejects_upload_counterexample:
  "load_table example_lib (csv_upload ''staff.csv'' bad_income_csv) = Inr bad_income_table
   \<and> length (rows bad_income_table) = 1
   \<and> upload_dataset example_lib [] (csv_upload ''staff.csv'' bad_income_csv) =
       (Inl (ValueError ''could not convert string to float: abc''), [])"
  by code_simp

text \<open>
  Claim C2, as amended. When the file parses to a table of \<open>N\<close> rows, the labels of its
  columns can be stripped (line 130 does not raise), every row is accepted
  (\<^verbatim>\<open>float()\<close> converts its \<^verbatim>\<open>MonthlyIncome\<close> value, and the driver binds its
  \<^verbatim>\<open>EmployeeID\<close>, \<^verbatim>\<open>Name\<close> and \<^verbatim>\<open>Department\<close> values), the identifiers
  drawn are distinct and new to the store, and the business identifiers that are not NULL
  are distinct and new to the store, the upload returns \<^verbatim>\<open>rows_inserted == N\<close> and
  the store grows by exactly \<open>N\<close> records, one per row; a row of missing values is
  accepted like any other.
\<close>

theorem upload_inserts_every_row:
  assumes "load_table l file = Inr df"
    and "strip_columns l (columns df) = Inr cols"
    and "list_all (row_accepted l cols) (rows df)"
    and "distinct (map (uuid4 l) [0 ..< length (rows df)])"
    and "set (map (uuid4 l) [0 ..< length (rows df)]) \<inter> set (map id_col db) = {}"
    and "distinct (filter (\<lambda>k. k \<noteq> None) (map (row_key l cols) (rows df)))"
    and "\<forall>k \<in> set (map (row_key l cols) (rows df)). k \<noteq> None \<longrightarrow> k \<notin> set (map employee_id db)"
  shows "\<exists>new. upload_dataset l db file =
                 (Inr \<lparr> status = ''success'', rows_inserted = length (rows df) \<rparr>, db @ new)
               \<and> length new = length (rows df)
               \<and> length (db @ new) = length db + length (rows df)"
proof -
  from planned_accepted[OF assms(3), of 0] obtain es new
    where es: "planned l cols 0 (rows df) = Inr es" and b: "map (bind_row l) es = map Inr new"
    by blast
  from planned_bound[OF es b]
  have ids: "map id_col new = map (uuid4 l) [0 ..< length (rows df)]"
    and keys: "map employee_id new = map (row_key l cols) (rows df)"
    by simp_all
  from keys have len: "length new = length (rows df)"
    by (metis length_map)
  have "insert_all l db es = Inr (db @ new)"
  proof (rule insert_all_succeeds[OF b])
    show "distinct (map id_col new)" using assms(4) by (simp only: ids)
    show "set (map id_col new) \<inter> set (map id_col db) = {}" using assms(5) by (simp only: ids)
    show "distinct (filter (\<lambda>k. k \<noteq> None) (map employee_id new))"
      using assms(6) by (simp only: keys)
    show "\<forall>k\<in>set (map employee_id new). k \<noteq> None \<longrightarrow> k \<notin> set (map employee_id db)"
      using assms(7) by (simp only: keys)
  qed
  with es assms(1,2) have "upload_dataset l db file =
      (Inr \<lparr> status = ''success'', rows_inserted = length (rows df) \<rparr>, db @ new)"
    by (simp add: upload_dataset_loaded)
  with len show ?thesis by auto
qed

theorem upload_inserts_every_row_witness:
  "load_table example_lib (csv_upload ''staff.csv'' sparse_csv) = Inr sparse_table
   \<and> strip_columns example_lib (columns sparse_table) =
       Inr [Some ''EmployeeID'', Some ''Name'', Some ''Department'', Some ''MonthlyIncome'']
   \<and> length (rows sparse_table) = 2
   \<and> fst (upload_dataset example_lib
             [stored ''k1'' (Some (Text ''E0'')) (Some (Text ''Zoe'')) (Some (Fin 100))]
             (csv_upload ''staff.csv'' sparse_csv))
       = Inr \<lparr> status = ''success'', rows_inserted = 2 \<rparr>
   \<and> length (snd (upload_dataset example_lib
             [stored ''k1'' (Some (Text ''E0'')) (Some (Text ''Zoe'')) (Some (Fin 100))]
             (csv_upload ''staff.csv'' sparse_csv))) = 3"
proof -
  let ?db = "[stored ''k1'' (Some (Text ''E0'')) (Some (Text ''Zoe'')) (Some (Fin 100))]"
  let ?file = "csv_upload ''staff.csv'' sparse_csv"
  let ?cols = "[Some ''EmployeeID'', Some ''Name'', Some ''Department'', Some ''MonthlyIncome'']"
  have h1: "load_table example_lib ?file = Inr sparse_table" by code_simp
  have h2: "strip_columns example_lib (columns sparse_table) = Inr ?cols" by code_simp
  have h3: "list_all (row_accepted example_lib ?cols) (rows sparse_table)" by code_simp
  have h4: "distinct (map (uuid4 example_lib) [0 ..< length (rows sparse_table)])" by code_simp
  have h5: "set (map (uuid4 example_lib) [0 ..< length (rows sparse_table)]) \<inter> set (map id_col ?db) = {}"
    by code_simp
  have h6: "distinct (filter (\<lambda>k. k \<noteq> None) (map (row_key example_lib ?cols) (rows sparse_table)))"
    by code_simp
  have h7: "\<forall>k \<in> set (map (row_key example_lib ?cols) (rows sparse_table)).
              k \<noteq> None \<longrightarrow> k \<notin> set (map employee_id ?db)"
    by code_simp
  have n: "length (rows sparse_table) = 2" by (simp add: sparse_table_def)
  from upload_inserts_every_row[OF h1 h2 h3 h4 h5 h6 h7, of ] h1 h2 n show ?thesis
    by auto
qed

subsection \<open>The income of a row\<close>














subsection \<open>Listing\<close>

lemma make_response_presentable:
  "presentable l e \<Longrightarrow>
     \<exists>r. make_response l e = Inr r \<and> r_id r = id_col e
        \<and> Some (r_employee_id r) = validate_str l (employee_id e)
        \<and> Some (r_name r) = validate_str l (name e)
        \<and> Some (r_department r) = validate_str l (department e)
        \<and> Some (r_monthly_income r) = monthly_income e"
  by (auto simp: presentable_def make_response_def)

lemma make_response_not_presentable:
  "\<not> presentable l e \<Longrightarrow>
     make_response l e = Inl (ValidationError ''validation error for EmployeeResponse'')"
  by (auto simp: presentable_def make_response_def split: option.splits)

lemma get_employees_presentable:
  "list_all (presentable l) db \<Longrightarrow>
     \<exists>rs. get_employees l db = Inr rs \<and> length rs = length db
        \<and> map r_id rs = map id_col db
        \<and> map (\<lambda>r. Some (r_employee_id r)) rs = map (\<lambda>e. validate_str l (employee_id e)) db
        \<and> map (\<lambda>r. Some (r_name r)) rs = map (\<lambda>e. validate_str l (name e)) db
        \<and> map (\<lambda>r. Some (r_department r)) rs = map (\<lambda>e. validate_str l (department e)) db
        \<and> map (\<lambda>r. Some (r_monthly_income r)) rs = map monthly_income db"
proof (induction db)
  case Nil
  then show ?case by (simp add: get_employees_def)
next
  case (Cons e db)
  then obtain rs where rs: "get_employees l db = Inr rs" "length rs = length db"
        "map r_id rs = map id_col db"
        "map (\<lambda>r. Some (r_employee_id r)) rs = map (\<lambda>e. validate_str l (employee_id e)) db"
        "map (\<lambda>r. Some (r_name r)) rs = map (\<lambda>e. validate_str l (name e)) db"
        "map (\<lambda>r. Some (r_department r)) rs = map (\<lambda>e. validate_str l (department e)) db"
        "map (\<lambda>r. Some (r_monthly_income r)) rs = map monthly_income db"
    by auto
  from Cons.prems make_response_presentable[of l e] obtain r where r: "make_response l e = Inr r"
    "r_id r = id_col e" "Some (r_employee_id r) = validate_str l (employee_id e)"
    "Some (r_name r) = validate_str l (name e)"
    "Some (r_department r) = validate_str l (department e)"
    "Some (r_monthly_income r) = monthly_income e"
    by auto
  have "get_employees l (e # db) = Inr (r # rs)"
    using rs(1) r(1) by (simp add: get_employees_def)
  with rs r show ?case by simp
qed

lemma get_employees_null:
  "e \<in> set db \<Longrightarrow> \<not> presentable l e \<Longrightarrow>
     get_employees l db = Inl (ValidationError ''validation error for EmployeeResponse'')"
proof (induction db)
  case Nil
  then show ?case by simp
next
  case (Cons d db)
  show ?case
  proof (cases "presentable l d")
    case True
    with Cons.prems have "e \<in> set db" by auto
    from Cons.IH[OF this Cons.prems(2)] make_response_presentable[OF True]
    show ?thesis by (auto simp: get_employees_def)
  next
    case False
    from make_response_not_presentable[OF this] show ?thesis by (simp add: get_employees_def)
  qed
qed

lemma comprehension_map: "comprehension f (map g xs) = comprehension (\<lambda>x. f (g x)) xs"
  by (induction xs) (simp_all split: sum.splits)

text \<open>
  A store of one record whose name is NULL: \<^verbatim>\<open>GET /api/employees\<close> raises and
  returns no record.
\<close>

theorem employees_without_name_counterexample:
  "get_employees example_lib [stored ''k1'' (Some (Text ''E1'')) None (Some (Fin 5000))] =
     Inl (ValidationError ''validation error for EmployeeResponse'')"
  by code_simp

text \<open>
  Claim C8, as amended. When every record of the store has a business identifier, a
  name, a department and a monthly income (none is NULL; a text value that was stored as
  a BLOB counts when the response model reads it as a string), \<^verbatim>\<open>GET /api/employees\<close>
  returns one entry per record, in store order, holding exactly the record's id, business
  identifier, name, department and income. For every state of the store, the answer is
  the same whatever age, gender, job role, tenure, overtime, attrition and performance
  rating the records hold: these attributes are not exposed.
\<close>

theorem employees_reduced_shape:
  "(list_all (presentable l) db \<longrightarrow>
      (\<exists>rs. get_employees l db = Inr rs \<and> length rs = length db
         \<and> map r_id rs = map id_col db
         \<and> map (\<lambda>r. Some (r_employee_id r)) rs = map (\<lambda>e. validate_str l (employee_id e)) db
         \<and> map (\<lambda>r. Some (r_name r)) rs = map (\<lambda>e. validate_str l (name e)) db
         \<and> map (\<lambda>r. Some (r_department r)) rs = map (\<lambda>e. validate_str l (department e)) db
         \<and> map (\<lambda>r. Some (r_monthly_income r)) rs = map monthly_income db))
   \<and> get_employees l
        (map (\<lambda>e. e \<lparr> age := f1 e, gender := f2 e, job_role := f3 e, years_at_company := f4 e,
                      overtime := f5 e, attrition := f6 e, performance_rating := f7 e \<rparr>) db)
       = get_employees l db"
proof
  show "list_all (presentable l) db \<longrightarrow>
      (\<exists>rs. get_employees l db = Inr rs \<and> length rs = length db
         \<and> map r_id rs = map id_col db
         \<and> map (\<lambda>r. Some (r_employee_id r)) rs = map (\<lambda>e. validate_str l (employee_id e)) db
         \<and> map (\<lambda>r. Some (r_name r)) rs = map (\<lambda>e. validate_str l (name e)) db
         \<and> map (\<lambda>r. Some (r_department r)) rs = map (\<lambda>e. validate_str l (department e)) db
         \<and> map (\<lambda>r. Some (r_monthly_income r)) rs = map monthly_income db)"
    using get_employees_presentable by blast
  have "\<And>e. make_response l (e \<lparr> age := f1 e, gender := f2 e, job_role := f3 e, years_at_company := f4 e,
                      overtime := f5 e, attrition := f6 e, performance_rating := f7 e \<rparr>)
            = make_response l e"
    by (simp add: make_response_def split: option.splits)
  then show "get_employees l
        (map (\<lambda>e. e \<lparr> age := f1 e, gender := f2 e, job_role := f3 e, years_at_company := f4 e,
                      overtime := f5 e, attrition := f6 e, performance_rating := f7 e \<rparr>) db)
       = get_employees l db"
    by (simp add: get_employees_def comprehension_map)
qed

theorem employees_reduced_shape_witness:
  "list_all (presentable example_lib)
     [stored ''k1'' (Some (Text ''E1'')) (Some (Text ''Alice'')) (Some (Fin 5000))]
   \<and> get_employees example_lib
       [stored ''k1'' (Some (Text ''E1'')) (Some (Text ''Alice'')) (Some (Fin 5000))] =
       Inr [\<lparr> r_id = ''k1'', r_employee_id = ''E1'', r_name = ''Alice'',
               r_department = ''Eng'', r_monthly_income = Fin 5000 \<rparr>]
   \<and> get_employees example_lib
        (map (\<lambda>e. e \<lparr> age := None, gender := None, job_role := None, years_at_company := None,
                      overtime := None, attrition := None, performance_rating := None \<rparr>)
           [stored ''k1'' (Some (Text ''E1'')) (Some (Text ''Alice'')) (Some (Fin 5000))])
       = get_employees example_lib
           [stored ''k1'' (Some (Text ''E1'')) (Some (Text ''Alice'')) (Some (Fin 5000))]"
proof -
  let ?db = "[stored ''k1'' (Some (Text ''E1'')) (Some (Text ''Alice'')) (Some (Fin 5000))]"
  have h: "list_all (presentable example_lib) ?db" by code_simp
  have v: "get_employees example_lib ?db =
       Inr [\<lparr> r_id = ''k1'', r_employee_id = ''E1'', r_name = ''Alice'',
               r_department = ''Eng'', r_monthly_income = Fin 5000 \<rparr>]" by code_simp
  from employees_reduced_shape[of example_lib ?db "\<lambda>e. None" "\<lambda>e. None" "\<lambda>e. None" "\<lambda>e. None"
      "\<lambda>e. None" "\<lambda>e. None" "\<lambda>e. None"]
  have "get_employees example_lib
        (map (\<lambda>e. e \<lparr> age := None, gender := None, job_role := None, years_at_company := None,
                      overtime := None, attrition := None, performance_rating := None \<rparr>) ?db)
       = get_employees example_lib ?db" by (rule conjunct2)
  with h v show ?thesis by (intro conjI)
qed

text \<open>
  Claim C9. If some record of the store has a NULL business identifier, name,
  department or monthly income, \<^verbatim>\<open>GET /api/employees\<close> raises the validation error
  of the response model and is answered with status 500; no record is returned.
\<close>

theorem null_field_is_server_error:
  assumes "e \<in> set db"
    and "employee_id e = None \<or> name e = None \<or> department e = None \<or> monthly_income e = None"
  shows "get_employees l db = Inl (ValidationError ''validation error for EmployeeResponse'')
         \<and> http_status (get_employees l db) = 500"
proof -
  from assms(2) have "\<not> presentable l e" by (auto simp: presentable_def validate_str_def)
  from get_employees_null[OF assms(1) this] show ?thesis by simp
qed

theorem null_field_is_server_error_witness:
  "snd (upload_dataset example_lib [] (csv_upload ''staff.csv'' no_name_csv)) =
     [\<lparr> id_col = ''uuid-0'', employee_id = Some (Text ''E1''), name = None, age = None,
        gender = None, department = Some (Text ''Eng''), job_role = None,
        monthly_income = Some (Fin 5000),
        years_at_company = None, overtime = Some False, attrition = Some False,
        performance_rating = None \<rparr>]
   \<and> http_status (get_employees example_lib
        (snd (upload_dataset example_lib [] (csv_upload ''staff.csv'' no_name_csv)))) = 500"
proof -
  let ?e = "\<lparr> id_col = ''uuid-0'', employee_id = Some (Text ''E1''), name = None, age = None,
        gender = None, department = Some (Text ''Eng''), job_role = None,
        monthly_income = Some (Fin 5000),
        years_at_company = None, overtime = Some False, attrition = Some False,
        performance_rating = None \<rparr>"
  have u: "snd (upload_dataset example_lib [] (csv_upload ''staff.csv'' no_name_csv)) = [?e]"
    by code_simp
  have m: "?e \<in> set [?e]" by simp
  have n: "employee_id ?e = None \<or> name ?e = None \<or> department ?e = None \<or> monthly_income ?e = None"
    by simp
  from null_field_is_server_error[OF m n, of example_lib]
  have "http_status (get_employees example_lib [?e]) = 500"
    by (rule conjunct2)
  with u show ?thesis by simp
qed

subsection \<open>Uniqueness of the business identifier\<close>

lemma insert_all_error:
  "map (bind_row l) es = map Inr new \<Longrightarrow> insert_all l tbl es = Inl x \<Longrightarrow>
     \<exists>m. x = IntegrityError m"
proof (induction es arbitrary: tbl new)
  case Nil
  then show ?case by simp
next
  case (Cons e es)
  from Cons.prems(1) obtain r new' where new: "new = r # new'" and r: "bind_row l e = Inr r"
    and rest: "map (bind_row l) es = map Inr new'"
    by (cases new) auto
  show ?case
  proof (cases "insert_row l tbl e")
    case (Inl y)
    with Cons.prems(2) have "x = y" by simp
    with Inl r show ?thesis by (auto simp: insert_row_def split: if_splits)
  next
    case (Inr t)
    with Cons.prems(2) have "insert_all l t es = Inl x" by simp
    from Cons.IH[OF rest this] show ?thesis .
  qed
qed

text \<open>
  Two rows with the business identifier \<^verbatim>\<open>E1\<close>, the first with the income
  \<^verbatim>\<open>abc\<close>: the loop raises the \<^verbatim>\<open>ValueError\<close> of \<^verbatim>\<open>float\<close> on the first row,
  and that exception, not one of the commit (which is never reached), leaves the handler.
\<close>

theorem duplicate_before_commit_counterexample:
  "load_table example_lib (csv_upload ''staff.csv'' twice_bad_csv) = Inr twice_bad_table
   \<and> strip_columns example_lib (columns twice_bad_table) =
       Inr [Some ''EmployeeID'', Some ''Name'', Some ''Department'', Some ''MonthlyIncome'']
   \<and> map (row_key example_lib [Some ''EmployeeID'', Some ''Name'', Some ''Department'', Some ''MonthlyIncome''])
        (rows twice_bad_table) = [Some (Text ''E1''), Some (Text ''E1'')]
   \<and> stage example_lib [Some ''EmployeeID'', Some ''Name'', Some ''Department'', Some ''MonthlyIncome''] 0
        (rows twice_bad_table) [] = Inl (ValueError ''could not convert string to float: abc'')
   \<and> upload_dataset example_lib [] (csv_upload ''staff.csv'' twice_bad_csv) =
       (Inl (ValueError ''could not convert string to float: abc''), [])"
  by code_simp

text \<open>
  Claim C10, as amended. The store enforces uniqueness of the business identifier as it
  is stored: two values are the same when they are the same text or the same BLOB. When
  the file parses, its column labels can be stripped, and some business identifier that
  is not NULL is stored for two rows of the table, or for a row and for a stored record,
  the upload raises, is answered with status 500 (a server error, not a client error)
  and leaves the store as it was. Whenever the loop completes, the exception is the one
  the final commit raises, and it is an \<^verbatim>\<open>IntegrityError\<close> when every row is
  accepted; otherwise it is the exception of the loop.
\<close>

theorem duplicate_employee_id_rejected:
  assumes "load_table l file = Inr df"
    and "strip_columns l (columns df) = Inr cols"
    and "\<not> distinct (filter (\<lambda>k. k \<noteq> None) (map (row_key l cols) (rows df)))
         \<or> (\<exists>k \<in> set (map (row_key l cols) (rows df)). k \<noteq> None \<and> k \<in> set (map employee_id db))"
  shows "\<exists>x. upload_dataset l db file = (Inl x, db)
            \<and> http_status (fst (upload_dataset l db file)) = 500
            \<and> (\<forall>es. planned l cols 0 (rows df) = Inr es \<longrightarrow> fst (commit l db es) = Inl x)
            \<and> (list_all (row_accepted l cols) (rows df) \<longrightarrow> (\<exists>m. x = IntegrityError m))
            \<and> (\<forall>y. planned l cols 0 (rows df) = Inl y \<longrightarrow> x = y)"
proof (cases "planned l cols 0 (rows df)")
  case (Inl x)
  with assms(1,2) have u: "upload_dataset l db file = (Inl x, db)"
    by (simp add: upload_dataset_loaded)
  from server_error_planned[OF Inl]
  have s: "http_status (Inl x :: py_exception + upload_response) = 500" .
  have "\<not> list_all (row_accepted l cols) (rows df)"
    using planned_accepted[of l cols "rows df" 0] Inl by auto
  with u s Inl show ?thesis by auto
next
  case (Inr es)
  note es = this
  show ?thesis
  proof (cases "insert_all l db es")
    case (Inl x)
    with es assms(1,2) have u: "upload_dataset l db file = (Inl x, db)"
      by (simp add: upload_dataset_loaded)
    from server_error_insert_all[OF Inl]
    have s: "http_status (Inl x :: py_exception + upload_response) = 500" .
    have c: "fst (commit l db es) = Inl x" using Inl by (simp add: commit_def)
    have k: "list_all (row_accepted l cols) (rows df) \<longrightarrow> (\<exists>m. x = IntegrityError m)"
    proof
      assume "list_all (row_accepted l cols) (rows df)"
      from planned_accepted[OF this, of 0] es obtain new
        where "map (bind_row l) es = map Inr new" by auto
      from insert_all_error[OF this Inl] show "\<exists>m. x = IntegrityError m" .
    qed
    from u s c k es show ?thesis by auto
  next
    case (Inr db')
    from insert_all_append[OF this] obtain new
      where new: "db' = db @ new" "map (bind_row l) es = map Inr new" by blast
    from planned_bound[OF es new(2)]
    have keys: "map employee_id new = map (row_key l cols) (rows df)" by simp
    from Inr new(1) have "insert_all l db es = Inr (db @ new)" by simp
    from insert_all_unique[OF this]
    have d: "distinct (filter (\<lambda>k. k \<noteq> None) (map employee_id new))"
      and f: "\<forall>r \<in> set new. employee_id r \<noteq> None \<longrightarrow> employee_id r \<notin> set (map employee_id db)"
      by blast+
    from d have "distinct (filter (\<lambda>k. k \<noteq> None) (map (row_key l cols) (rows df)))"
      by (simp only: keys)
    moreover from f have "\<forall>k \<in> set (map employee_id new). k \<noteq> None \<longrightarrow> k \<notin> set (map employee_id db)"
      by auto
    then have "\<forall>k \<in> set (map (row_key l cols) (rows df)). k \<noteq> None \<longrightarrow> k \<notin> set (map employee_id db)"
      by (simp only: keys)
    ultimately have False using assms(3) by blast
    then show ?thesis ..
  qed
qed

theorem duplicate_employee_id_rejected_witness:
  "load_table example_lib (csv_upload ''staff.csv'' twice_csv) = Inr twice_table
   \<and> map (row_key example_lib [Some ''EmployeeID'', Some ''Name'', Some ''Department'', Some ''MonthlyIncome''])
        (rows twice_table) = [Some (Text ''E1''), Some (Text ''E1'')]
   \<and> upload_dataset example_lib [] (csv_upload ''staff.csv'' twice_csv) =
       (Inl (IntegrityError ''UNIQUE constraint failed: employees.employee_id''), [])
   \<and> http_status (fst (upload_dataset example_lib [] (csv_upload ''staff.csv'' twice_csv))) = 500
   \<and> load_table example_lib (csv_upload ''staff.csv'' roster_csv) = Inr roster_table
   \<and> map (row_key example_lib [Some ''EmployeeID'', Some ''Name'', Some ''Department'', Some ''MonthlyIncome''])
        (rows roster_table) = [Some (Text ''E1'')]
   \<and> http_status (fst (upload_dataset example_lib
        [stored ''k1'' (Some (Text ''E1'')) (Some (Text ''Zoe'')) (Some (Fin 100))]
        (csv_upload ''staff.csv'' roster_csv))) = 500
   \<and> snd (upload_dataset example_lib
        [stored ''k1'' (Some (Text ''E1'')) (Some (Text ''Zoe'')) (Some (Fin 100))]
        (csv_upload ''staff.csv'' roster_csv))
       = [stored ''k1'' (Some (Text ''E1'')) (Some (Text ''Zoe'')) (Some (Fin 100))]"
proof -
  let ?db = "[stored ''k1'' (Some (Text ''E1'')) (Some (Text ''Zoe'')) (Some (Fin 100))]"
  let ?cols = "[Some ''EmployeeID'', Some ''Name'', Some ''Department'', Some ''MonthlyIncome'']"
  have a1: "load_table example_lib (csv_upload ''staff.csv'' twice_csv) = Inr twice_table"
    by code_simp
  have a0: "strip_columns example_lib (columns twice_table) = Inr ?cols"
    by code_simp
  have a2: "map (row_key example_lib ?cols) (rows twice_table) = [Some (Text ''E1''), Some (Text ''E1'')]"
    by code_simp
  have a3: "\<not> distinct (filter (\<lambda>k. k \<noteq> None) (map (row_key example_lib ?cols) (rows twice_table)))
         \<or> (\<exists>k \<in> set (map (row_key example_lib ?cols) (rows twice_table)).
               k \<noteq> None \<and> k \<in> set (map employee_id []))"
    unfolding a2 by simp
  have a6: "upload_dataset example_lib [] (csv_upload ''staff.csv'' twice_csv) =
       (Inl (IntegrityError ''UNIQUE constraint failed: employees.employee_id''), [])"
    by code_simp
  from duplicate_employee_id_rejected[OF a1 a0 a3]
  have a4: "http_status (fst (upload_dataset example_lib [] (csv_upload ''staff.csv'' twice_csv))) = 500"
    by auto
  have b1: "load_table example_lib (csv_upload ''staff.csv'' roster_csv) = Inr roster_table"
    by code_simp
  have b0: "strip_columns example_lib (columns roster_table) = Inr ?cols"
    by code_simp
  have b2: "map (row_key example_lib ?cols) (rows roster_table) = [Some (Text ''E1'')]"
    by code_simp
  have b3: "\<not> distinct (filter (\<lambda>k. k \<noteq> None) (map (row_key example_lib ?cols) (rows roster_table)))
         \<or> (\<exists>k \<in> set (map (row_key example_lib ?cols) (rows roster_table)).
               k \<noteq> None \<and> k \<in> set (map employee_id ?db))"
    unfolding b2 by (simp add: stored_def)
  from duplicate_employee_id_rejected[OF b1 b0 b3]
  have b4: "http_status (fst (upload_dataset example_lib ?db (csv_upload ''staff.csv'' roster_csv))) = 500"
    and b5: "snd (upload_dataset example_lib ?db (csv_upload ''staff.csv'' roster_csv)) = ?db"
    by auto
  from a1 a2 a6 a4 b1 b2 b4 b5 show ?thesis by (intro conjI)
qed

subsection \<open>Further examples of the upload\<close>

text \<open>
  An index that does not hold strings (the column index of a table read from an empty
  sheet): line 130 raises, outside the \<^verbatim>\<open>try\<close>, and the request is answered with
  status 500.
\<close>

lemma upload_without_labels:
  assumes "load_table l file = Inr df" and "columns df = OtherIndex ls"
  shows "upload_dataset l db file =
           (Inl (AttributeError ''Can only use .str accessor with string values''), db)
         \<and> http_status (fst (upload_dataset l db file)) = 500"
  using assms by (simp add: upload_dataset_def strip_columns_def)

text \<open>An \<^verbatim>\<open>int\<close> that does not fit 64 bits is refused by the driver, at the commit.\<close>

lemma bind_text_large_int:
  "bind_text l (PInt (2 ^ 63)) =
     Inl (OverflowError ''Python int too large to convert to SQLite INTEGER'')"
  by simp

text \<open>
  An \<^verbatim>\<open>int\<close> is stored as its decimal text; a \<^verbatim>\<open>numpy.int64\<close> of the same
  value is stored as a BLOB, which the UNIQUE index does not equate with that text. So
  the file of numbers is accepted by a store that holds the text \<^verbatim>\<open>101\<close>.
\<close>

lemma bind_text_int: "bind_text l (PInt 101) = Inr (Some (Text ''101''))"
  by code_simp

lemma numeric_upload_stores_blob:
  "upload_dataset example_lib
     [stored ''k1'' (Some (Text ''101'')) (Some (Text ''Zoe'')) (Some (Fin 100))]
     (csv_upload ''staff.csv'' numeric_csv) =
   (Inr \<lparr> status = ''success'', rows_inserted = 1 \<rparr>,
    [stored ''k1'' (Some (Text ''101'')) (Some (Text ''Zoe'')) (Some (Fin 100)),
     \<lparr> id_col = ''uuid-0'', employee_id = Some (Blob [101, 0, 0, 0, 0, 0, 0, 0]), name = None,
       age = None, gender = None, department = None, job_role = None,
       monthly_income = Some (Fin 5000), years_at_company = None,
       overtime = Some False, attrition = Some False, performance_rating = None \<rparr>])"
  by code_simp

end
